theory Spec2Isabelle
  imports Complex_Main
begin

section \<open>Iterative DEJMPS distillation circuit: the construction of distillation.py\<close>

text \<open>
  The module has one function, \<open>create_distillation_circuit\<close>. It validates the number of
  Bell pairs, allocates two registers, appends eight gate operations per ancilla pair to a
  circuit, serializes the circuit with the circuit library (\<open>qasm3.dumps\<close>, which is not part
  of the module: it is a parameter \<open>dumps\<close> below), builds the lines of the flag logic,
  splices them into the serialized text and returns the circuit with the merged text attached.
  What the register constructors of the library do with a size that is a float is a
  parameter too.
\<close>

subsection \<open>Values, errors, circuits\<close>

text \<open>
  The argument is annotated \<open>int\<close>, which Python does not enforce. The values a caller can
  pass are modelled as far as the range check tells them apart: an integer, a float and a
  string. A finite float is given by its exact value (Python compares an int with a float
  exactly); the other floats are the two infinities and nan.
\<close>

datatype pyfloat = Finite rat | PosInf | NegInf | NaN

datatype pyval = PyInt int | PyFloat pyfloat | PyStr string

text \<open>
  \<open>ValueError\<close> is the exception of line 54. \<open>TypeError\<close> is raised by Python itself: by the
  comparison of an int with a str at line 53 and by \<open>range\<close> on a float at line 73.
  \<open>LibraryError x\<close> is an exception \<open>x\<close> raised inside a constructor of the circuit library,
  whatever its class.
\<close>

datatype 'x error = ValueError | TypeError | LibraryError 'x

text \<open>The value of \<open>N\<close> at line 56, once the check has passed.\<close>

datatype number = IntN int | FloatN rat

text \<open>The constructor calls of lines 60 to 63, with the size each is given.\<close>

datatype allocation =
    NewQuantumRegister number string
  | NewClassicalRegister number string
  | NewQuantumCircuit

text \<open>
  What a register constructor does with a float size is the library's business: it raises
  an exception of its own or it returns.
\<close>

record 'x float_sizes =
  quantum_register_raises :: "rat \<Rightarrow> 'x option"
  classical_register_raises :: "rat \<Rightarrow> 'x option"

text \<open>
  The two rotation angles are the floating-point constants \<open>np.pi/2\<close> and \<open>-np.pi/2\<close>;
  they are kept symbolic.
\<close>

datatype angle = HalfPi | NegHalfPi

text \<open>
  The operations the function appends: \<open>qc.rx(theta, q)\<close>, \<open>qc.cx(control, target)\<close> and
  \<open>qc.measure(qubit, clbit)\<close>, with the register indices as written in the source.
\<close>

datatype instruction =
    is_Rx: Rx angle int
  | is_Cx: Cx int int
  | is_Measure: Measure int int

record register =
  reg_size :: int
  reg_name :: string

record circuit =
  qreg :: register
  creg :: register
  data :: "instruction list"

text \<open>
  The returned object is the circuit with two attributes attached to it: the merged text
  and a closure that returns the merged text.
\<close>

record flagged_circuit =
  structured :: circuit
  modified_qasm3 :: string
  get_qasm3_with_flag :: "unit \<Rightarrow> string"

definition QuantumRegister :: "int \<Rightarrow> string \<Rightarrow> register" where
  "QuantumRegister n nm = \<lparr>reg_size = n, reg_name = nm\<rparr>"

definition ClassicalRegister :: "int \<Rightarrow> string \<Rightarrow> register" where
  "ClassicalRegister n nm = \<lparr>reg_size = n, reg_name = nm\<rparr>"

definition QuantumCircuit :: "register \<Rightarrow> register \<Rightarrow> circuit" where
  "QuantumCircuit qr cr = \<lparr>qreg = qr, creg = cr, data = []\<rparr>"

definition rx :: "angle \<Rightarrow> int \<Rightarrow> circuit \<Rightarrow> circuit" where
  "rx theta q qc = qc\<lparr>data := data qc @ [Rx theta q]\<rparr>"

definition cx :: "int \<Rightarrow> int \<Rightarrow> circuit \<Rightarrow> circuit" where
  "cx c t qc = qc\<lparr>data := data qc @ [Cx c t]\<rparr>"

definition measure_op :: "int \<Rightarrow> int \<Rightarrow> circuit \<Rightarrow> circuit" where
  "measure_op q b qc = qc\<lparr>data := data qc @ [Measure q b]\<rparr>"

subsection \<open>Text: decimal numerals, \<open>split\<close>, \<open>join\<close>, \<open>strip\<close>\<close>

definition digit_char :: "nat \<Rightarrow> char" where
  "digit_char d = char_of (48 + d)"

fun str_nat :: "nat \<Rightarrow> string" where
  "str_nat n = (if n < 10 then [digit_char n]
                else str_nat (n div 10) @ [digit_char (n mod 10)])"

declare str_nat.simps [simp del]

text \<open>What an f-string writes for an integer: \<open>str(i)\<close>.\<close>

definition str_int :: "int \<Rightarrow> string" where
  "str_int i = (if i < 0 then CHR ''-'' # str_nat (nat (- i)) else str_nat (nat i))"

definition newline :: char where
  "newline = CHR 0x0A"

text \<open>\<open>s.split('\n')\<close>: one more piece than there are newlines in \<open>s\<close>.\<close>

fun split_newline :: "string \<Rightarrow> string list" where
  "split_newline [] = [[]]"
| "split_newline (c # cs) =
     (if c = newline then [] # split_newline cs
      else (case split_newline cs of
              [] \<Rightarrow> [[c]]
            | l # ls \<Rightarrow> (c # l) # ls))"

text \<open>\<open>'\n'.join(lines)\<close>.\<close>

fun join_newline :: "string list \<Rightarrow> string" where
  "join_newline [] = []"
| "join_newline [l] = l"
| "join_newline (l # m # ls) = l @ newline # join_newline (m # ls)"

text \<open>
  \<open>str.strip()\<close> removes leading and trailing whitespace. A \<open>char\<close> is a code point below
  256; the whitespace of Python among these is 9 to 13, 28 to 32, 133 and 160.
\<close>

definition is_space :: "char \<Rightarrow> bool" where
  "is_space c = (let n = (of_char c :: nat)
                 in (9 \<le> n \<and> n \<le> 13) \<or> (28 \<le> n \<and> n \<le> 32) \<or> n = 133 \<or> n = 160)"

definition strip :: "string \<Rightarrow> string" where
  "strip s = rev (dropWhile is_space (rev (dropWhile is_space s)))"

subsection \<open>The gate loop (lines 56 to 101)\<close>

text \<open>Lines 66, 67 and 70: the target pair and the flag bit.\<close>

definition alice_target :: "int \<Rightarrow> int" where
  "alice_target N = N - 1"

definition bob_target :: "int \<Rightarrow> int" where
  "bob_target N = N"

definition flag_bit :: "int \<Rightarrow> int" where
  "flag_bit N = 2 * N - 2"

text \<open>Lines 60 to 63: the registers and the empty circuit.\<close>

definition allocate :: "int \<Rightarrow> circuit" where
  "allocate N =
     (let qr = QuantumRegister (2 * N) ''q'';
          cr = ClassicalRegister (2 * N - 1) ''c''
      in QuantumCircuit qr cr)"

text \<open>Lines 74 to 101: one pass of the loop body.\<close>

definition distill_step :: "int \<Rightarrow> int \<Rightarrow> int \<Rightarrow> circuit \<Rightarrow> int \<Rightarrow> circuit" where
  "distill_step N a_target b_target qc k =
     (let alice_ancilla = k;
          bob_ancilla = 2 * N - 1 - k;
          alice_meas = 2 * k;
          bob_meas = 2 * k + 1;
          qc = rx HalfPi a_target qc;
          qc = rx HalfPi alice_ancilla qc;
          qc = rx NegHalfPi b_target qc;
          qc = rx NegHalfPi bob_ancilla qc;
          qc = cx alice_ancilla a_target qc;
          qc = cx bob_ancilla b_target qc;
          qc = measure_op alice_ancilla alice_meas qc;
          qc = measure_op bob_ancilla bob_meas qc
      in qc)"

text \<open>The loop \<open>for k in range(N - 1)\<close> over the empty circuit.\<close>

definition build_circuit :: "int \<Rightarrow> circuit" where
  "build_circuit N =
     foldl (distill_step N (alice_target N) (bob_target N)) (allocate N) [0..N - 2]"

subsection \<open>The flag logic (lines 109 to 123)\<close>

definition flag_header :: string where
  "flag_header =
     ''    // Flag logic: set flag = 1 if any measurements don'' @ [CHR 0x27] @ ''t match''"

definition flag_step :: "int \<Rightarrow> string list \<Rightarrow> int \<Rightarrow> string list" where
  "flag_step f_bit flag_logic_lines k =
     (let alice_meas = 2 * k;
          bob_meas = 2 * k + 1;
          ls = flag_logic_lines;
          ls = ls @ [''    // Step '' @ str_int k @ '': Check if c['' @ str_int alice_meas
                       @ ''] != c['' @ str_int bob_meas @ '']''];
          ls = ls @ [''    if (c['' @ str_int alice_meas @ ''] == true && c[''
                       @ str_int bob_meas @ ''] == false) {''];
          ls = ls @ [''        c['' @ str_int f_bit @ ''] = true;''];
          ls = ls @ [''    }''];
          ls = ls @ [''    if (c['' @ str_int alice_meas @ ''] == false && c[''
                       @ str_int bob_meas @ ''] == true) {''];
          ls = ls @ [''        c['' @ str_int f_bit @ ''] = true;''];
          ls = ls @ [''    }'']
      in ls)"

definition flag_logic :: "int \<Rightarrow> string list" where
  "flag_logic N = foldl (flag_step (flag_bit N)) [flag_header] [0..N - 2]"

subsection \<open>The patcher (lines 126 to 138)\<close>

text \<open>
  \<open>for i in range(len(qasm_lines) - 1, -1, -1)\<close>: the third argument counts the lines not
  yet looked at, so the line looked at next has index one less; the second argument is the
  value \<open>insert_pos\<close> keeps when the loop ends without \<open>break\<close>.
\<close>

fun scan_back :: "string list \<Rightarrow> nat \<Rightarrow> nat \<Rightarrow> nat" where
  "scan_back qasm_lines insert_pos 0 = insert_pos"
| "scan_back qasm_lines insert_pos (Suc i) =
     (let stripped = strip (qasm_lines ! i)
      in if stripped = ''}'' \<and> i > 0 then i
         else scan_back qasm_lines insert_pos i)"

definition find_insert_pos :: "string list \<Rightarrow> nat" where
  "find_insert_pos qasm_lines = scan_back qasm_lines (length qasm_lines) (length qasm_lines)"

definition patch :: "string list \<Rightarrow> string list \<Rightarrow> string list" where
  "patch qasm_lines flag_logic_lines =
     (let insert_pos = find_insert_pos qasm_lines
      in take insert_pos qasm_lines @ flag_logic_lines @ drop insert_pos qasm_lines)"

subsection \<open>The whole function\<close>

text \<open>
  Lines 52 to 56: \<open>if not (2 <= num_bell_pairs <= 8): raise ValueError\<close>, then
  \<open>N = num_bell_pairs\<close>. An int and a str do not compare; \<open>2 <= inf\<close> holds and
  \<open>inf <= 8\<close> does not; every comparison with nan is false.
\<close>

fun validate :: "pyval \<Rightarrow> 'x error + number" where
  "validate (PyInt n) = (if \<not> (2 \<le> n \<and> n \<le> 8) then Inl ValueError else Inr (IntN n))"
| "validate (PyFloat (Finite r)) =
     (if \<not> (2 \<le> r \<and> r \<le> 8) then Inl ValueError else Inr (FloatN r))"
| "validate (PyFloat PosInf) = Inl ValueError"
| "validate (PyFloat NegInf) = Inl ValueError"
| "validate (PyFloat NaN) = Inl ValueError"
| "validate (PyStr s) = Inl TypeError"

text \<open>Lines 56 to 152, for an integer that passed the check.\<close>

definition assemble :: "(circuit \<Rightarrow> string) \<Rightarrow> int \<Rightarrow> flagged_circuit" where
  "assemble dumps N =
     (let qc = build_circuit N;
          qasm_str = dumps qc;
          flag_logic_lines = flag_logic N;
          qasm_lines = split_newline qasm_str;
          new_qasm_lines = patch qasm_lines flag_logic_lines;
          new_qasm_str = join_newline new_qasm_lines
      in \<lparr>structured = qc, modified_qasm3 = new_qasm_str,
          get_qasm3_with_flag = (\<lambda>_. new_qasm_str)\<rparr>)"

text \<open>
  The whole call, with the constructor calls it has made when it returns or raises. The
  check comes first. An integer goes through lines 56 to 152. The check does not ask for an
  integer, so a float can pass it: line 60 then gives \<open>QuantumRegister\<close> the float
  \<open>2 * N\<close> and line 62 gives \<open>ClassicalRegister\<close> the float \<open>2 * N - 1\<close>; when the library
  takes both, line 73 calls \<open>range(N - 1)\<close>, which takes no float and raises TypeError.
\<close>

definition construct ::
  "'x float_sizes \<Rightarrow> (circuit \<Rightarrow> string) \<Rightarrow> pyval
     \<Rightarrow> ('x error + flagged_circuit) \<times> allocation list" where
  "construct lib dumps num_bell_pairs =
     (case validate num_bell_pairs of
        Inl e \<Rightarrow> (Inl e, [])
      | Inr (IntN N) \<Rightarrow>
          (Inr (assemble dumps N),
           [NewQuantumRegister (IntN (2 * N)) ''q'',
            NewClassicalRegister (IntN (2 * N - 1)) ''c'',
            NewQuantumCircuit])
      | Inr (FloatN r) \<Rightarrow>
          (case quantum_register_raises lib (2 * r) of
             Some x \<Rightarrow> (Inl (LibraryError x), [NewQuantumRegister (FloatN (2 * r)) ''q''])
           | None \<Rightarrow>
               (case classical_register_raises lib (2 * r - 1) of
                  Some x \<Rightarrow>
                    (Inl (LibraryError x),
                     [NewQuantumRegister (FloatN (2 * r)) ''q'',
                      NewClassicalRegister (FloatN (2 * r - 1)) ''c''])
                | None \<Rightarrow>
                    (Inl TypeError,
                     [NewQuantumRegister (FloatN (2 * r)) ''q'',
                      NewClassicalRegister (FloatN (2 * r - 1)) ''c'',
                      NewQuantumCircuit]))))"

text \<open>What the call returns or raises.\<close>

definition create_distillation_circuit ::
  "'x float_sizes \<Rightarrow> (circuit \<Rightarrow> string) \<Rightarrow> pyval \<Rightarrow> 'x error + flagged_circuit" where
  "create_distillation_circuit lib dumps num_bell_pairs =
     fst (construct lib dumps num_bell_pairs)"

subsection \<open>What an instruction list does\<close>

text \<open>
  The properties below speak of the qubits an instruction acts on, of the classical bit a
  measurement writes, and of the instructions one pass of the loop body appends.
\<close>

fun op_qubits :: "instruction \<Rightarrow> int list" where
  "op_qubits (Rx theta q) = [q]"
| "op_qubits (Cx c t) = [c, t]"
| "op_qubits (Measure q b) = [q]"

fun measured :: "instruction \<Rightarrow> (int \<times> int) list" where
  "measured (Measure q b) = [(q, b)]"
| "measured (Rx theta q) = []"
| "measured (Cx c t) = []"

definition touched_qubits :: "instruction list \<Rightarrow> int set" where
  "touched_qubits ops = set (concat (map op_qubits ops))"

definition measurements :: "instruction list \<Rightarrow> (int \<times> int) list" where
  "measurements ops = concat (map measured ops)"

definition measured_qubits :: "instruction list \<Rightarrow> int set" where
  "measured_qubits ops = set (map fst (measurements ops))"

definition written_bits :: "instruction list \<Rightarrow> int set" where
  "written_bits ops = set (map snd (measurements ops))"

fun is_rotation :: "angle \<Rightarrow> instruction \<Rightarrow> bool" where
  "is_rotation theta (Rx t q) = (t = theta)"
| "is_rotation theta (Cx c t) = False"
| "is_rotation theta (Measure q b) = False"

definition step_block :: "int \<Rightarrow> int \<Rightarrow> instruction list" where
  "step_block N k = data (distill_step N (alice_target N) (bob_target N) (allocate N) k)"

text \<open>
  A serializer to run the construction on: a header, the two declarations and one statement
  per instruction, in the manner of OpenQASM 3. The theorems hold for every serializer.
\<close>

fun example_stmt :: "instruction \<Rightarrow> string" where
  "example_stmt (Rx HalfPi q) = ''rx(pi/2) q['' @ str_int q @ ''];''"
| "example_stmt (Rx NegHalfPi q) = ''rx(-pi/2) q['' @ str_int q @ ''];''"
| "example_stmt (Cx c t) = ''cx q['' @ str_int c @ ''], q['' @ str_int t @ ''];''"
| "example_stmt (Measure q b) = ''c['' @ str_int b @ ''] = measure q['' @ str_int q @ ''];''"

definition example_dumps :: "circuit \<Rightarrow> string" where
  "example_dumps qc =
     join_newline
       ([''OPENQASM 3.0;'',
         ''bit['' @ str_int (reg_size (creg qc)) @ ''] '' @ reg_name (creg qc) @ '';'',
         ''qubit['' @ str_int (reg_size (qreg qc)) @ ''] '' @ reg_name (qreg qc) @ '';'']
        @ map example_stmt (data qc) @ [[]])"

text \<open>
  Register constructors to run the construction on: they take a float size that is a whole
  number and refuse any other.
\<close>

datatype example_error = CircuitError

definition whole_size :: "rat \<Rightarrow> example_error option" where
  "whole_size r = (if r = of_int \<lfloor>r\<rfloor> then None else Some CircuitError)"

definition example_registers :: "example_error float_sizes" where
  "example_registers =
     \<lparr>quantum_register_raises = whole_size, classical_register_raises = whole_size\<rparr>"

section \<open>The gate loop\<close>

lemma data_distill_step:
  "data (distill_step N a b qc k) = data qc @
     [Rx HalfPi a, Rx HalfPi k, Rx NegHalfPi b, Rx NegHalfPi (2 * N - 1 - k),
      Cx k a, Cx (2 * N - 1 - k) b, Measure k (2 * k), Measure (2 * N - 1 - k) (2 * k + 1)]"
  by (simp add: distill_step_def rx_def cx_def measure_op_def Let_def)

lemma regs_distill_step:
  "qreg (distill_step N a b qc k) = qreg qc" "creg (distill_step N a b qc k) = creg qc"
  by (simp_all add: distill_step_def rx_def cx_def measure_op_def Let_def)

lemma data_allocate: "data (allocate N) = []"
  by (simp add: allocate_def QuantumCircuit_def)

lemma step_block_eq:
  "step_block N k =
     [Rx HalfPi (N - 1), Rx HalfPi k, Rx NegHalfPi N, Rx NegHalfPi (2 * N - 1 - k),
      Cx k (N - 1), Cx (2 * N - 1 - k) N, Measure k (2 * k), Measure (2 * N - 1 - k) (2 * k + 1)]"
  by (simp add: step_block_def data_distill_step data_allocate alice_target_def bob_target_def)

lemma data_foldl_distill:
  "data (foldl (distill_step N (alice_target N) (bob_target N)) qc ks) =
     data qc @ concat (map (step_block N) ks)"
proof (induction ks arbitrary: qc)
  case Nil
  show ?case by simp
next
  case (Cons k ks)
  have "data (distill_step N (alice_target N) (bob_target N) qc k) = data qc @ step_block N k"
    by (simp add: data_distill_step step_block_def data_allocate)
  then show ?case by (simp add: Cons)
qed

lemma regs_foldl_distill:
  "qreg (foldl (distill_step N a b) qc ks) = qreg qc"
  "creg (foldl (distill_step N a b) qc ks) = creg qc"
  by (induction ks arbitrary: qc) (simp_all add: regs_distill_step)

lemma data_build_circuit:
  "data (build_circuit N) = concat (map (step_block N) [0..N - 2])"
  by (simp add: build_circuit_def data_foldl_distill data_allocate)

lemma regs_build_circuit:
  "qreg (build_circuit N) = \<lparr>reg_size = 2 * N, reg_name = ''q''\<rparr>"
  "creg (build_circuit N) = \<lparr>reg_size = 2 * N - 1, reg_name = ''c''\<rparr>"
  by (simp_all add: build_circuit_def regs_foldl_distill allocate_def QuantumCircuit_def
      QuantumRegister_def ClassicalRegister_def)

lemma create_valid:
  "2 \<le> N \<Longrightarrow> N \<le> 8 \<Longrightarrow>
     create_distillation_circuit lib dumps (PyInt N) = Inr (assemble dumps N)"
  by (simp add: create_distillation_circuit_def construct_def)

lemma structured_assemble: "structured (assemble dumps N) = build_circuit N"
  by (simp add: assemble_def Let_def)

text \<open>
  C1. For every N from 2 to 8 the construction succeeds, and the instruction list of the
  circuit it returns is the concatenation, for k = 0, 1, ..., N - 2 in this order, of:
  the rotation by +pi/2 on Alice's target N - 1 and on Alice's ancilla k; the rotation by
  -pi/2 on Bob's target N and on Bob's ancilla 2N - 1 - k; the controlled operation with
  control k on N - 1 and the one with control 2N - 1 - k on N; the measurement of qubit k
  into bit 2k and of qubit 2N - 1 - k into bit 2k + 1.
\<close>

theorem gate_sequence:
  assumes "2 \<le> N" and "N \<le> 8"
  shows "\<exists>a. create_distillation_circuit lib dumps (PyInt N) = Inr a \<and>
           data (structured a) = concat (map (\<lambda>k.
             [Rx HalfPi (N - 1), Rx HalfPi k,
              Rx NegHalfPi N, Rx NegHalfPi (2 * N - 1 - k),
              Cx k (N - 1), Cx (2 * N - 1 - k) N,
              Measure k (2 * k), Measure (2 * N - 1 - k) (2 * k + 1)]) [0..N - 2])"
proof -
  have "step_block N = (\<lambda>k.
             [Rx HalfPi (N - 1), Rx HalfPi k,
              Rx NegHalfPi N, Rx NegHalfPi (2 * N - 1 - k),
              Cx k (N - 1), Cx (2 * N - 1 - k) N,
              Measure k (2 * k), Measure (2 * N - 1 - k) (2 * k + 1)])"
    by (rule ext) (rule step_block_eq)
  then show ?thesis
    using assms by (simp add: create_valid structured_assemble data_build_circuit)
qed

theorem gate_sequence_witness:
  "\<exists>a. create_distillation_circuit example_registers example_dumps (PyInt 3) = Inr a \<and>
     data (structured a) =
       [Rx HalfPi 2, Rx HalfPi 0, Rx NegHalfPi 3, Rx NegHalfPi 5,
        Cx 0 2, Cx 5 3, Measure 0 0, Measure 5 1,
        Rx HalfPi 2, Rx HalfPi 1, Rx NegHalfPi 3, Rx NegHalfPi 4,
        Cx 1 2, Cx 4 3, Measure 1 2, Measure 4 3]"
  using gate_sequence [of 3 example_registers example_dumps] by (simp add: upto.simps)

section \<open>The patcher\<close>

lemma scan_back_hit:
  assumes "0 < i" "i < n" "strip (ls ! i) = ''}''"
  shows "0 < scan_back ls d n \<and> scan_back ls d n < n \<and>
         strip (ls ! scan_back ls d n) = ''}'' \<and> i \<le> scan_back ls d n"
  using assms
proof (induction n)
  case 0
  then show ?case by simp
next
  case (Suc n)
  show ?case
  proof (cases "strip (ls ! n) = ''}'' \<and> 0 < n")
    case True
    with Suc.prems show ?thesis by (simp add: Let_def)
  next
    case False
    with Suc.prems have "i < n" by (metis less_SucE)
    with Suc False show ?thesis by (auto simp: Let_def)
  qed
qed

lemma scan_back_miss:
  assumes "\<And>i. 0 < i \<Longrightarrow> i < n \<Longrightarrow> strip (ls ! i) \<noteq> ''}''"
  shows "scan_back ls d n = d"
  using assms by (induction n) (auto simp: Let_def)

text \<open>
  C3. The patcher returns the lines before the insertion point, then the fragment, then the
  remaining lines. When some line other than the first strips to a closing brace, the
  insertion point is the greatest index of such a line (the first one met scanning from the
  end); when there is none, the insertion point is the number of lines, and the fragment
  comes after all of them. The patcher is a total function: no input makes it fail.
\<close>

theorem patcher_insertion_point:
  "patch qasm frag =
     take (find_insert_pos qasm) qasm @ frag @ drop (find_insert_pos qasm) qasm
   \<and> ((\<exists>i. 0 < i \<and> i < length qasm \<and> strip (qasm ! i) = ''}'') \<longrightarrow>
        0 < find_insert_pos qasm \<and> find_insert_pos qasm < length qasm \<and>
        strip (qasm ! find_insert_pos qasm) = ''}'' \<and>
        (\<forall>j. 0 < j \<and> j < length qasm \<and> strip (qasm ! j) = ''}'' \<longrightarrow> j \<le> find_insert_pos qasm))
   \<and> ((\<forall>i. 0 < i \<and> i < length qasm \<longrightarrow> strip (qasm ! i) \<noteq> ''}'') \<longrightarrow>
        find_insert_pos qasm = length qasm \<and> patch qasm frag = qasm @ frag)"
proof (intro conjI impI)
  show "patch qasm frag =
     take (find_insert_pos qasm) qasm @ frag @ drop (find_insert_pos qasm) qasm"
    by (simp add: patch_def Let_def)
next
  assume "\<exists>i. 0 < i \<and> i < length qasm \<and> strip (qasm ! i) = ''}''"
  then obtain i where i: "0 < i" "i < length qasm" "strip (qasm ! i) = ''}''" by blast
  from scan_back_hit [OF i, of "length qasm"]
  show "0 < find_insert_pos qasm" "find_insert_pos qasm < length qasm"
    "strip (qasm ! find_insert_pos qasm) = ''}''"
    by (simp_all add: find_insert_pos_def)
  show "\<forall>j. 0 < j \<and> j < length qasm \<and> strip (qasm ! j) = ''}'' \<longrightarrow> j \<le> find_insert_pos qasm"
    using scan_back_hit [of _ "length qasm" qasm "length qasm"]
    by (simp add: find_insert_pos_def)
next
  assume none: "\<forall>i. 0 < i \<and> i < length qasm \<longrightarrow> strip (qasm ! i) \<noteq> ''}''"
  then show p: "find_insert_pos qasm = length qasm"
    by (simp add: find_insert_pos_def scan_back_miss)
  show "patch qasm frag = qasm @ frag"
    by (simp add: patch_def Let_def p)
qed

theorem patcher_insertion_point_witness:
  "patch [''a {'', ''}'', ''b'', ''  }  '', ''''] [''F''] = [''a {'', ''}'', ''b'', ''F'', ''  }  '', '''']
   \<and> find_insert_pos [''a {'', ''}'', ''b'', ''  }  '', ''''] = 3
   \<and> patch [''}'', ''b;''] [''F''] = [''}'', ''b;'', ''F'']"
proof -
  let ?t = "[''a {'', ''}'', ''b'', ''  }  '', '''']"
  let ?u = "[''}'', ''b;'']"
  have s3: "strip (?t ! 3) = ''}''" by (simp add: strip_def is_space_def)
  have s4: "strip (?t ! 4) \<noteq> ''}''" by (simp add: strip_def is_space_def)
  have ex: "\<exists>i. 0 < i \<and> i < length ?t \<and> strip (?t ! i) = ''}''"
    using s3 by (intro exI [of _ 3]) simp
  from patcher_insertion_point [of ?t "[''F'']"] ex
  have a: "patch ?t [''F''] = take (find_insert_pos ?t) ?t @ [''F''] @ drop (find_insert_pos ?t) ?t"
    and b: "find_insert_pos ?t < length ?t" "strip (?t ! find_insert_pos ?t) = ''}''"
    and c: "\<forall>j. 0 < j \<and> j < length ?t \<and> strip (?t ! j) = ''}'' \<longrightarrow> j \<le> find_insert_pos ?t"
    by blast+
  from c s3 have "3 \<le> find_insert_pos ?t" by simp
  with b(1) have "find_insert_pos ?t = 3 \<or> find_insert_pos ?t = 4"
    by (simp; arith)
  with b(2) s4 have p: "find_insert_pos ?t = 3" by auto
  have u1: "strip (?u ! 1) \<noteq> ''}''" by (simp add: strip_def is_space_def)
  have none: "\<forall>i. 0 < i \<and> i < length ?u \<longrightarrow> strip (?u ! i) \<noteq> ''}''"
  proof (intro allI impI)
    fix i :: nat
    assume "0 < i \<and> i < length ?u"
    then have "i = 1" by simp
    with u1 show "strip (?u ! i) \<noteq> ''}''" by simp
  qed
  from patcher_insertion_point [of ?u "[''F'']"] none
  have "patch ?u [''F''] = ?u @ [''F'']" by blast
  with a p show ?thesis by simp
qed

section \<open>Pairing, registers and the flag bit\<close>

lemma concat_map_concat:
  "concat (map g (concat (map f ks))) = concat (map (\<lambda>k. concat (map g (f k))) ks)"
  by (induction ks) simp_all

lemma measurements_concat:
  "measurements (concat (map f ks)) = concat (map (\<lambda>k. measurements (f k)) ks)"
  by (simp add: measurements_def concat_map_concat)

lemma measurements_step_block:
  "measurements (step_block N k) = [(k, 2 * k), (2 * N - 1 - k, 2 * k + 1)]"
  by (simp add: measurements_def step_block_eq)

lemma measurements_build:
  "measurements (data (build_circuit N)) =
     concat (map (\<lambda>k. [(k, 2 * k), (2 * N - 1 - k, 2 * k + 1)]) [0..N - 2])"
  by (simp add: data_build_circuit measurements_concat measurements_step_block)

lemma measured_qubits_step: "measured_qubits (step_block N k) = {k, 2 * N - 1 - k}"
  by (simp add: measured_qubits_def measurements_step_block)

lemma written_bits_step: "written_bits (step_block N k) = {2 * k, 2 * k + 1}"
  by (simp add: written_bits_def measurements_step_block)

lemma touched_qubits_step:
  "touched_qubits (step_block N k) = {N - 1, k, N, 2 * N - 1 - k}"
  by (auto simp: touched_qubits_def step_block_eq)

text \<open>
  C4. For every N from 2 to 8 the construction succeeds and the measurements of the circuit,
  in order, are those of the pairing: for k = 0, ..., N - 2, qubit k into bit 2k and then
  qubit 2N - 1 - k into bit 2k + 1. For every k of that range the pass of the loop measures
  exactly these two pairs, and all four indices are indices of the allocated registers
  (the pairing is defined on the whole range).
\<close>

theorem pairing_scheme:
  assumes "2 \<le> N" and "N \<le> 8"
  shows "\<exists>a. create_distillation_circuit lib dumps (PyInt N) = Inr a \<and>
           measurements (data (structured a)) =
             concat (map (\<lambda>k. [(k, 2 * k), (2 * N - 1 - k, 2 * k + 1)]) [0..N - 2]) \<and>
           (\<forall>k\<in>{0..N - 2}.
              measurements (step_block N k) = [(k, 2 * k), (2 * N - 1 - k, 2 * k + 1)] \<and>
              0 \<le> k \<and> k < reg_size (qreg (structured a)) \<and>
              0 \<le> 2 * N - 1 - k \<and> 2 * N - 1 - k < reg_size (qreg (structured a)) \<and>
              0 \<le> 2 * k \<and> 2 * k < reg_size (creg (structured a)) \<and>
              0 \<le> 2 * k + 1 \<and> 2 * k + 1 < reg_size (creg (structured a)))"
  using assms
  by (simp add: create_valid structured_assemble measurements_build regs_build_circuit
      measurements_step_block)

theorem pairing_scheme_witness:
  "\<exists>a. create_distillation_circuit example_registers example_dumps (PyInt 8) = Inr a \<and>
     measurements (data (structured a)) =
       [(0, 0), (15, 1), (1, 2), (14, 3), (2, 4), (13, 5), (3, 6), (12, 7),
        (4, 8), (11, 9), (5, 10), (10, 11), (6, 12), (9, 13)]"
proof -
  from pairing_scheme [of 8 example_registers example_dumps]
  obtain a where a: "create_distillation_circuit example_registers example_dumps (PyInt 8) = Inr a"
    and m: "measurements (data (structured a)) =
             concat (map (\<lambda>k. [(k, 2 * k), (2 * 8 - 1 - k, 2 * k + 1)]) [0..8 - 2])"
    by auto
  from m have "measurements (data (structured a)) =
       [(0, 0), (15, 1), (1, 2), (14, 3), (2, 4), (13, 5), (3, 6), (12, 7),
        (4, 8), (11, 9), (5, 10), (10, 11), (6, 12), (9, 13)]"
    by (simp add: upto.simps)
  with a show ?thesis by blast
qed

text \<open>
  C5. For N from 2 to 8 and k1, k2 in 0..N - 2: the qubits that step k1 measures are its
  ancilla pair k1 and 2N - 1 - k1, neither of which is a target qubit N - 1 or N, and the
  bits it writes are 2k1 and 2k1 + 1; when k1 and k2 differ, the ancilla pairs of the two
  steps are disjoint and so are their measurement bit pairs. The circuit is the
  concatenation of these steps.
\<close>

theorem ancilla_disjoint:
  assumes "2 \<le> N" and "N \<le> 8" and "0 \<le> k1" and "k1 \<le> N - 2" and "0 \<le> k2" and "k2 \<le> N - 2"
  shows "(\<exists>a. create_distillation_circuit lib dumps (PyInt N) = Inr a \<and>
              data (structured a) = concat (map (step_block N) [0..N - 2])) \<and>
         measured_qubits (step_block N k1) = {k1, 2 * N - 1 - k1} \<and>
         written_bits (step_block N k1) = {2 * k1, 2 * k1 + 1} \<and>
         measured_qubits (step_block N k1) \<inter> {N - 1, N} = {} \<and>
         alice_target N = N - 1 \<and> bob_target N = N \<and>
         (k1 \<noteq> k2 \<longrightarrow>
            measured_qubits (step_block N k1) \<inter> measured_qubits (step_block N k2) = {} \<and>
            written_bits (step_block N k1) \<inter> written_bits (step_block N k2) = {})"
  using assms
  by (simp add: create_valid structured_assemble data_build_circuit measured_qubits_step
      written_bits_step alice_target_def bob_target_def)

theorem ancilla_disjoint_witness:
  "measured_qubits (step_block 3 0) \<inter> measured_qubits (step_block 3 1) = {} \<and>
   written_bits (step_block 3 0) \<inter> written_bits (step_block 3 1) = {} \<and>
   measured_qubits (step_block 3 0) = {0, 5} \<and> measured_qubits (step_block 3 0) \<inter> {2, 3} = {}"
  using ancilla_disjoint [of 3 0 1 example_registers example_dumps] by auto

text \<open>
  C6. For N from 2 to 8 the construction succeeds with a quantum register of 2N qubits and
  a classical register of 2N - 1 bits; the target indices are N - 1 and N (and every
  controlled operation acts on one of them); the flag bit is 2N - 2, the last classical
  index; there are N - 1 steps: 2(N - 1) measurements among 8(N - 1) instructions.
\<close>

theorem register_allocation:
  assumes "2 \<le> N" and "N \<le> 8"
  shows "\<exists>a. create_distillation_circuit lib dumps (PyInt N) = Inr a \<and>
           reg_size (qreg (structured a)) = 2 * N \<and>
           reg_size (creg (structured a)) = 2 * N - 1 \<and>
           alice_target N = N - 1 \<and> bob_target N = N \<and>
           flag_bit N = 2 * N - 2 \<and>
           flag_bit N = reg_size (creg (structured a)) - 1 \<and>
           int (length (measurements (data (structured a)))) = 2 * (N - 1) \<and>
           int (length (data (structured a))) = 8 * (N - 1) \<and>
           (\<forall>c t. Cx c t \<in> set (data (structured a)) \<longrightarrow> t = N - 1 \<or> t = N)"
proof -
  have len: "length (concat (map f ks)) = n * length ks" if "\<And>k. length (f k) = n"
    for f :: "int \<Rightarrow> 'b list" and ks n
    using that by (induction ks) simp_all
  have l1: "length (data (build_circuit N)) = 8 * length [0..N - 2]"
    unfolding data_build_circuit by (rule len) (simp add: step_block_eq)
  have l2: "length (measurements (data (build_circuit N))) = 2 * length [0..N - 2]"
    unfolding measurements_build by (rule len) simp
  have cxs: "t = N - 1 \<or> t = N" if "Cx c t \<in> set (data (build_circuit N))" for c t
  proof -
    from that obtain k where "Cx c t \<in> set (step_block N k)"
      unfolding data_build_circuit by auto
    then show ?thesis by (auto simp: step_block_eq)
  qed
  show ?thesis
    using assms cxs
    by (simp add: create_valid structured_assemble regs_build_circuit alice_target_def
        bob_target_def flag_bit_def l1 l2)
qed

theorem register_allocation_witness:
  "\<exists>a. create_distillation_circuit example_registers example_dumps (PyInt 8) = Inr a \<and>
     reg_size (qreg (structured a)) = 16 \<and> reg_size (creg (structured a)) = 15 \<and>
     alice_target 8 = 7 \<and> bob_target 8 = 8 \<and> flag_bit 8 = 14 \<and>
     length (data (structured a)) = 56"
  using register_allocation [of 8 example_registers example_dumps] by auto

text \<open>
  C8. For N from 2 to 8, no measurement of the returned circuit writes the flag bit 2N - 2:
  every measurement writes a bit from 0 to 2N - 3. Step k acts on the two target qubits,
  which all steps share, and on its own ancilla pair k and 2N - 1 - k; it acts on no
  ancilla qubit of another step j.
\<close>

theorem flag_bit_not_measured:
  assumes "2 \<le> N" and "N \<le> 8"
  shows "\<exists>a. create_distillation_circuit lib dumps (PyInt N) = Inr a \<and>
           data (structured a) = concat (map (step_block N) [0..N - 2]) \<and>
           flag_bit N \<notin> written_bits (data (structured a)) \<and>
           (\<forall>(q, b)\<in>set (measurements (data (structured a))). 0 \<le> b \<and> b \<le> 2 * N - 3) \<and>
           (\<forall>k\<in>{0..N - 2}. \<forall>j\<in>{0..N - 2}.
              touched_qubits (step_block N k) = {N - 1, k, N, 2 * N - 1 - k} \<and>
              (k \<noteq> j \<longrightarrow>
                 touched_qubits (step_block N k) \<inter> measured_qubits (step_block N j) = {}))"
proof -
  have bits: "0 \<le> b \<and> b \<le> 2 * N - 3"
    if "(q, b) \<in> set (measurements (data (build_circuit N)))" for q b
    using that by (auto simp: measurements_build)
  then have nf: "flag_bit N \<notin> written_bits (data (build_circuit N))"
    by (force simp: written_bits_def flag_bit_def)
  have dis: "touched_qubits (step_block N k) \<inter> measured_qubits (step_block N j) = {}"
    if "0 \<le> k" "k \<le> N - 2" "0 \<le> j" "j \<le> N - 2" "k \<noteq> j" for k j
    using that by (simp add: touched_qubits_step measured_qubits_step)
  show ?thesis
    using assms bits nf dis
    by (auto simp: create_valid structured_assemble data_build_circuit touched_qubits_step)
qed

theorem flag_bit_not_measured_witness:
  "\<exists>a. create_distillation_circuit example_registers example_dumps (PyInt 3) = Inr a \<and>
     flag_bit 3 \<notin> written_bits (data (structured a)) \<and>
     touched_qubits (step_block 3 0) \<inter> measured_qubits (step_block 3 1) = {}"
  using flag_bit_not_measured [of 3 example_registers example_dumps] by force

section \<open>Lines and the merged text\<close>

lemma digit_not_newline: "d < 10 \<Longrightarrow> digit_char d \<noteq> newline"
proof
  assume d: "d < 10" and "digit_char d = newline"
  then have "(of_char (digit_char d) :: nat) = of_char newline" by simp
  with d show False by (simp add: digit_char_def newline_def)
qed

lemma str_nat_no_newline: "newline \<notin> set (str_nat n)"
proof (induction n rule: str_nat.induct)
  case (1 n)
  show ?case
  proof (cases "n < 10")
    case True
    then show ?thesis
      using digit_not_newline [of n] by (simp add: str_nat.simps [of n])
  next
    case False
    have "n mod 10 < 10" by simp
    with False 1 show ?thesis
      using digit_not_newline [of "n mod 10"] by (simp add: str_nat.simps [of n])
  qed
qed

lemma str_int_no_newline: "newline \<notin> set (str_int i)"
  using str_nat_no_newline [of "nat i"] str_nat_no_newline [of "nat (- i)"]
  by (simp add: str_int_def newline_def)

lemma split_newline_not_Nil: "split_newline s \<noteq> []"
  by (induction s) (auto split: list.splits)

lemma split_newline_lines: "l \<in> set (split_newline s) \<Longrightarrow> newline \<notin> set l"
proof (induction s arbitrary: l)
  case Nil
  then show ?case by simp
next
  case (Cons c cs)
  show ?case
  proof (cases "c = newline")
    case True
    with Cons show ?thesis by auto
  next
    case False
    obtain m ms where ms: "split_newline cs = m # ms"
      using split_newline_not_Nil [of cs] by (cases "split_newline cs") auto
    with False Cons.prems have "l = c # m \<or> l \<in> set ms" by simp
    with False ms Cons.IH [of m] Cons.IH [of l] show ?thesis by auto
  qed
qed

lemma join_split: "join_newline (split_newline s) = s"
proof (induction s)
  case Nil
  show ?case by simp
next
  case (Cons c cs)
  obtain m ms where ms: "split_newline cs = m # ms"
    using split_newline_not_Nil [of cs] by (cases "split_newline cs") auto
  with Cons show ?case by (cases ms) auto
qed

lemma split_line: "newline \<notin> set l \<Longrightarrow> split_newline l = [l]"
  by (induction l) auto

lemma split_append_line:
  "newline \<notin> set l \<Longrightarrow> split_newline (l @ newline # s) = l # split_newline s"
  by (induction l) auto

lemma split_join:
  "ls \<noteq> [] \<Longrightarrow> (\<And>l. l \<in> set ls \<Longrightarrow> newline \<notin> set l) \<Longrightarrow> split_newline (join_newline ls) = ls"
proof (induction ls rule: join_newline.induct)
  case 1
  then show ?case by simp
next
  case (2 l)
  then show ?case by (simp add: split_line)
next
  case (3 l m ls)
  then show ?case by (simp add: split_append_line)
qed

lemma foldl_flag_step:
  "foldl (flag_step f) ls ks = ls @ concat (map (\<lambda>k. flag_step f [] k) ks)"
proof (induction ks arbitrary: ls)
  case Nil
  show ?case by simp
next
  case (Cons k ks)
  have "flag_step f ls k = ls @ flag_step f [] k"
    by (simp add: flag_step_def Let_def)
  then show ?case by (simp add: Cons)
qed

lemma flag_step_lines:
  "flag_step f [] k =
     [''    // Step '' @ str_int k @ '': Check if c['' @ str_int (2 * k)
        @ ''] != c['' @ str_int (2 * k + 1) @ '']'',
      ''    if (c['' @ str_int (2 * k) @ ''] == true && c['' @ str_int (2 * k + 1)
        @ ''] == false) {'',
      ''        c['' @ str_int f @ ''] = true;'',
      ''    }'',
      ''    if (c['' @ str_int (2 * k) @ ''] == false && c['' @ str_int (2 * k + 1)
        @ ''] == true) {'',
      ''        c['' @ str_int f @ ''] = true;'',
      ''    }'']"
  by (simp add: flag_step_def Let_def)

lemma flag_logic_eq:
  "flag_logic N = flag_header # concat (map (\<lambda>k. flag_step (2 * N - 2) [] k) [0..N - 2])"
  by (simp add: flag_logic_def foldl_flag_step flag_bit_def)

lemma flag_step_no_newline: "l \<in> set (flag_step f [] k) \<Longrightarrow> newline \<notin> set l"
  using str_int_no_newline [of k] str_int_no_newline [of "2 * k"]
    str_int_no_newline [of "2 * k + 1"] str_int_no_newline [of f]
  by (auto simp: flag_step_lines newline_def)

lemma flag_logic_no_newline: "l \<in> set (flag_logic N) \<Longrightarrow> newline \<notin> set l"
  using flag_step_no_newline by (auto simp: flag_logic_eq flag_header_def newline_def)

lemma patch_no_newline:
  assumes "\<And>l. l \<in> set ls \<Longrightarrow> newline \<notin> set l" "\<And>l. l \<in> set frag \<Longrightarrow> newline \<notin> set l"
    and "l \<in> set (patch ls frag)"
  shows "newline \<notin> set l"
  using assms by (auto simp: patch_def Let_def dest: in_set_takeD in_set_dropD)

lemma split_modified:
  "split_newline (modified_qasm3 (assemble dumps N)) =
     patch (split_newline (dumps (build_circuit N))) (flag_logic N)"
proof -
  let ?ls = "split_newline (dumps (build_circuit N))"
  have ne: "patch ?ls (flag_logic N) \<noteq> []"
    by (simp add: patch_def Let_def flag_logic_eq)
  have "split_newline (join_newline (patch ?ls (flag_logic N))) = patch ?ls (flag_logic N)"
    using ne
  proof (rule split_join)
    fix l assume "l \<in> set (patch ?ls (flag_logic N))"
    then show "newline \<notin> set l"
      using patch_no_newline [of ?ls "flag_logic N" l] split_newline_lines flag_logic_no_newline
      by blast
  qed
  then show ?thesis by (simp add: assemble_def Let_def)
qed

section \<open>The flag logic\<close>

text \<open>
  C2. For N from 2 to 8 the construction succeeds, and the lines of the merged text are the
  lines of the serialized text with the flag logic spliced in at the insertion point. The
  flag logic is its header comment followed, for k = 0, ..., N - 2 in this order, by a
  comment and one pair of conditional blocks: the first sets bit 2N - 2 to true when bit 2k
  is true and bit 2k + 1 is false, the second when bit 2k is false and bit 2k + 1 is true.
  So it has N - 1 pairs (1 + 7(N - 1) lines), and its only statements, the lines that end
  with a semicolon, are the assignment of true to bit 2N - 2: nothing clears the flag.
\<close>

theorem flag_logic_fragment:
  assumes "2 \<le> N" and "N \<le> 8"
  shows "\<exists>a. create_distillation_circuit lib dumps (PyInt N) = Inr a \<and>
           split_newline (modified_qasm3 a) =
             take (find_insert_pos (split_newline (dumps (structured a))))
                  (split_newline (dumps (structured a)))
             @ flag_logic N
             @ drop (find_insert_pos (split_newline (dumps (structured a))))
                  (split_newline (dumps (structured a))) \<and>
           flag_logic N = flag_header # concat (map (\<lambda>k.
             [''    // Step '' @ str_int k @ '': Check if c['' @ str_int (2 * k)
                @ ''] != c['' @ str_int (2 * k + 1) @ '']'',
              ''    if (c['' @ str_int (2 * k) @ ''] == true && c['' @ str_int (2 * k + 1)
                @ ''] == false) {'',
              ''        c['' @ str_int (2 * N - 2) @ ''] = true;'',
              ''    }'',
              ''    if (c['' @ str_int (2 * k) @ ''] == false && c['' @ str_int (2 * k + 1)
                @ ''] == true) {'',
              ''        c['' @ str_int (2 * N - 2) @ ''] = true;'',
              ''    }'']) [0..N - 2]) \<and>
           int (length (flag_logic N)) = 1 + 7 * (N - 1) \<and>
           (\<forall>l\<in>set (flag_logic N).
              l \<noteq> [] \<and> last l = CHR '';'' \<longrightarrow>
              l = ''        c['' @ str_int (2 * N - 2) @ ''] = true;'')"
proof -
  have len: "length (concat (map f ks)) = n * length ks" if "\<And>k. length (f k) = n"
    for f :: "int \<Rightarrow> string list" and ks n
    using that by (induction ks) simp_all
  have "length (concat (map (\<lambda>k. flag_step (2 * N - 2) [] k) [0..N - 2])) =
          7 * length [0..N - 2]"
    by (rule len) (simp add: flag_step_lines)
  then have l: "length (flag_logic N) = 1 + 7 * length [0..N - 2]"
    by (simp add: flag_logic_eq)
  have stmt: "l = ''        c['' @ str_int (2 * N - 2) @ ''] = true;''"
    if "l \<in> set (flag_logic N)" "last l = CHR '';''" for l
  proof -
    from that(1) consider "l = flag_header"
      | k where "l \<in> set (flag_step (2 * N - 2) [] k)"
      unfolding flag_logic_eq by auto
    then show ?thesis
    proof cases
      case 1
      with that(2) show ?thesis by (simp add: flag_header_def)
    next
      case 2
      with that(2) show ?thesis by (auto simp: flag_step_lines)
    qed
  qed
  have eq: "(\<lambda>k. flag_step (2 * N - 2) [] k) = (\<lambda>k.
             [''    // Step '' @ str_int k @ '': Check if c['' @ str_int (2 * k)
                @ ''] != c['' @ str_int (2 * k + 1) @ '']'',
              ''    if (c['' @ str_int (2 * k) @ ''] == true && c['' @ str_int (2 * k + 1)
                @ ''] == false) {'',
              ''        c['' @ str_int (2 * N - 2) @ ''] = true;'',
              ''    }'',
              ''    if (c['' @ str_int (2 * k) @ ''] == false && c['' @ str_int (2 * k + 1)
                @ ''] == true) {'',
              ''        c['' @ str_int (2 * N - 2) @ ''] = true;'',
              ''    }''])"
    by (rule ext) (rule flag_step_lines)
  have fl: "flag_logic N = flag_header # concat (map (\<lambda>k.
             [''    // Step '' @ str_int k @ '': Check if c['' @ str_int (2 * k)
                @ ''] != c['' @ str_int (2 * k + 1) @ '']'',
              ''    if (c['' @ str_int (2 * k) @ ''] == true && c['' @ str_int (2 * k + 1)
                @ ''] == false) {'',
              ''        c['' @ str_int (2 * N - 2) @ ''] = true;'',
              ''    }'',
              ''    if (c['' @ str_int (2 * k) @ ''] == false && c['' @ str_int (2 * k + 1)
                @ ''] == true) {'',
              ''        c['' @ str_int (2 * N - 2) @ ''] = true;'',
              ''    }'']) [0..N - 2])"
    unfolding flag_logic_eq eq ..
  have sp: "split_newline (modified_qasm3 (assemble dumps N)) =
             take (find_insert_pos (split_newline (dumps (build_circuit N))))
                  (split_newline (dumps (build_circuit N)))
             @ flag_logic N
             @ drop (find_insert_pos (split_newline (dumps (build_circuit N))))
                  (split_newline (dumps (build_circuit N)))"
    by (simp add: split_modified patch_def Let_def)
  have c: "create_distillation_circuit lib dumps (PyInt N) = Inr (assemble dumps N)"
    using assms by (rule create_valid)
  have ll: "int (length (flag_logic N)) = 1 + 7 * (N - 1)"
    using assms by (simp add: l)
  show ?thesis
    apply (rule exI [of _ "assemble dumps N"])
    apply (intro conjI)
        apply (rule c)
       apply (simp only: structured_assemble sp)
      apply (rule fl)
     apply (rule ll)
    using stmt apply blast
    done
qed

theorem flag_logic_fragment_witness:
  "flag_logic 2 =
     [''    // Flag logic: set flag = 1 if any measurements don'' @ [CHR 0x27] @ ''t match'',
      ''    // Step 0: Check if c[0] != c[1]'',
      ''    if (c[0] == true && c[1] == false) {'',
      ''        c[2] = true;'',
      ''    }'',
      ''    if (c[0] == false && c[1] == true) {'',
      ''        c[2] = true;'',
      ''    }'']"
proof -
  have s: "str_int 0 = ''0''" "str_int 1 = ''1''" "str_int 2 = ''2''"
    by code_simp+
  have v: "(2::int) \<le> 2" "(2::int) \<le> 8" by simp_all
  from flag_logic_fragment [OF v, of example_registers example_dumps]
  have "flag_logic 2 = flag_header # concat (map (\<lambda>k.
             [''    // Step '' @ str_int k @ '': Check if c['' @ str_int (2 * k)
                @ ''] != c['' @ str_int (2 * k + 1) @ '']'',
              ''    if (c['' @ str_int (2 * k) @ ''] == true && c['' @ str_int (2 * k + 1)
                @ ''] == false) {'',
              ''        c['' @ str_int (2 * 2 - 2) @ ''] = true;'',
              ''    }'',
              ''    if (c['' @ str_int (2 * k) @ ''] == false && c['' @ str_int (2 * k + 1)
                @ ''] == true) {'',
              ''        c['' @ str_int (2 * 2 - 2) @ ''] = true;'',
              ''    }'']) [0..2 - 2])"
    by blast
  then show ?thesis by (simp add: s flag_header_def)
qed

section \<open>Validation\<close>

lemma construct_error_no_dumps:
  "fst (construct lib dumps v) = Inl e \<Longrightarrow> construct lib dumps' v = construct lib dumps v"
  by (auto simp: construct_def split: sum.splits number.splits option.splits)

text \<open>
  The claim C7 says that every argument that is not an integer fails with the error of the
  range check, before anything is allocated. The float 2.5 passes the check: both register
  constructors are called, here they take the sizes 5.0 and 4.0, and the call fails at
  \<open>range(N - 1)\<close> with a type error. The float 2.3 passes the check too, and here the
  first register constructor refuses the size 4.6 with an error of its own. The string "3"
  fails the comparison itself with a type error.
\<close>

theorem validation_counterexample:
  "validate (PyFloat (Finite (5 / 2))) = (Inr (FloatN (5 / 2)) :: example_error error + number) \<and>
   construct example_registers example_dumps (PyFloat (Finite (5 / 2))) =
     (Inl TypeError,
      [NewQuantumRegister (FloatN 5) ''q'', NewClassicalRegister (FloatN 4) ''c'',
       NewQuantumCircuit]) \<and>
   construct example_registers example_dumps (PyFloat (Finite (23 / 10))) =
     (Inl (LibraryError CircuitError), [NewQuantumRegister (FloatN (23 / 5)) ''q'']) \<and>
   create_distillation_circuit example_registers example_dumps (PyFloat (Finite (5 / 2)))
     \<noteq> Inl ValueError \<and>
   construct example_registers example_dumps (PyStr ''3'') = (Inl TypeError, [])"
proof -
  have f: "\<lfloor>23 / 5 :: rat\<rfloor> = 4"
    by (simp add: floor_eq_iff)
  have w: "whole_size (23 / 5) = Some CircuitError" "whole_size 5 = None" "whole_size 4 = None"
    by (simp_all add: whole_size_def f)
  show ?thesis
    by (simp add: construct_def create_distillation_circuit_def example_registers_def w)
qed

text \<open>
  C7, amended. The construction fails with ValueError exactly when the number N, an integer
  or a float, is outside [2, 8]; so do N = 1, 9, 0 and -1, both infinities and nan. When it
  fails with ValueError no constructor has been called. For every integer N from 2 to 8 it
  succeeds, having called the two register constructors with 2N and 2N - 1 and the circuit
  constructor. A float inside [2, 8] passes the check, so at least the first register
  constructor is called with a float; the call never returns a circuit: it fails with the
  error of the register constructor that refuses the size, or, when both accept, with the
  type error of \<open>range(N - 1)\<close>. A string fails the comparison with a type error, before
  any constructor call. A call that fails does not depend on the serializer, and a failed
  call returns no circuit.
\<close>

theorem validation:
  "(create_distillation_circuit lib dumps (PyInt N) = Inl ValueError \<longleftrightarrow> N < 2 \<or> 8 < N) \<and>
   (2 \<le> N \<and> N \<le> 8 \<longrightarrow>
      (\<exists>a. construct lib dumps (PyInt N) =
         (Inr a, [NewQuantumRegister (IntN (2 * N)) ''q'',
                  NewClassicalRegister (IntN (2 * N - 1)) ''c'', NewQuantumCircuit]))) \<and>
   create_distillation_circuit lib dumps (PyInt 1) = Inl ValueError \<and>
   create_distillation_circuit lib dumps (PyInt 9) = Inl ValueError \<and>
   create_distillation_circuit lib dumps (PyInt 0) = Inl ValueError \<and>
   create_distillation_circuit lib dumps (PyInt (- 1)) = Inl ValueError \<and>
   (create_distillation_circuit lib dumps (PyFloat (Finite r)) = Inl ValueError
      \<longleftrightarrow> r < 2 \<or> 8 < r) \<and>
   create_distillation_circuit lib dumps (PyFloat PosInf) = Inl ValueError \<and>
   create_distillation_circuit lib dumps (PyFloat NegInf) = Inl ValueError \<and>
   create_distillation_circuit lib dumps (PyFloat NaN) = Inl ValueError \<and>
   (2 \<le> r \<and> r \<le> 8 \<longrightarrow>
      validate (PyFloat (Finite r)) = (Inr (FloatN r) :: 'x error + number) \<and>
      (\<forall>a. create_distillation_circuit lib dumps (PyFloat (Finite r)) \<noteq> Inr a) \<and>
      snd (construct lib dumps (PyFloat (Finite r))) \<noteq> [] \<and>
      (\<forall>x. quantum_register_raises lib (2 * r) = Some x \<longrightarrow>
           create_distillation_circuit lib dumps (PyFloat (Finite r)) = Inl (LibraryError x)) \<and>
      (\<forall>x. quantum_register_raises lib (2 * r) = None \<and>
           classical_register_raises lib (2 * r - 1) = Some x \<longrightarrow>
           create_distillation_circuit lib dumps (PyFloat (Finite r)) = Inl (LibraryError x)) \<and>
      (quantum_register_raises lib (2 * r) = None \<and>
       classical_register_raises lib (2 * r - 1) = None \<longrightarrow>
           create_distillation_circuit lib dumps (PyFloat (Finite r)) = Inl TypeError)) \<and>
   construct lib dumps (PyStr s) = (Inl TypeError, []) \<and>
   (fst (construct lib dumps v) = Inl ValueError \<longrightarrow> snd (construct lib dumps v) = []) \<and>
   (\<forall>e. create_distillation_circuit lib dumps v = Inl e \<longrightarrow>
        construct lib dumps' v = construct lib dumps v)"
proof -
  have early: "snd (construct lib dumps v) = []" if "fst (construct lib dumps v) = Inl ValueError"
    using that
    by (auto simp: construct_def split: sum.splits number.splits option.splits)
  have nd: "construct lib dumps' v = construct lib dumps v"
    if "create_distillation_circuit lib dumps v = Inl e" for e
    using that construct_error_no_dumps [of lib dumps v e dumps']
    by (simp add: create_distillation_circuit_def)
  have ints: "create_distillation_circuit lib dumps (PyInt n) = Inl ValueError \<longleftrightarrow> n < 2 \<or> 8 < n"
    for n
    by (auto simp: create_distillation_circuit_def construct_def)
  have flt: "create_distillation_circuit lib dumps (PyFloat (Finite r)) = Inl ValueError
      \<longleftrightarrow> r < 2 \<or> 8 < r"
    by (auto simp: create_distillation_circuit_def construct_def split: option.splits)
  have inside: "validate (PyFloat (Finite r)) = (Inr (FloatN r) :: 'x error + number) \<and>
      (\<forall>a. create_distillation_circuit lib dumps (PyFloat (Finite r)) \<noteq> Inr a) \<and>
      snd (construct lib dumps (PyFloat (Finite r))) \<noteq> [] \<and>
      (\<forall>x. quantum_register_raises lib (2 * r) = Some x \<longrightarrow>
           create_distillation_circuit lib dumps (PyFloat (Finite r)) = Inl (LibraryError x)) \<and>
      (\<forall>x. quantum_register_raises lib (2 * r) = None \<and>
           classical_register_raises lib (2 * r - 1) = Some x \<longrightarrow>
           create_distillation_circuit lib dumps (PyFloat (Finite r)) = Inl (LibraryError x)) \<and>
      (quantum_register_raises lib (2 * r) = None \<and>
       classical_register_raises lib (2 * r - 1) = None \<longrightarrow>
           create_distillation_circuit lib dumps (PyFloat (Finite r)) = Inl TypeError)"
    if "2 \<le> r \<and> r \<le> 8"
    using that
    by (auto simp: create_distillation_circuit_def construct_def split: option.splits)
  have ok: "\<exists>a. construct lib dumps (PyInt N) =
         (Inr a, [NewQuantumRegister (IntN (2 * N)) ''q'',
                  NewClassicalRegister (IntN (2 * N - 1)) ''c'', NewQuantumCircuit])"
    if "2 \<le> N \<and> N \<le> 8"
    using that by (simp add: construct_def)
  have special: "create_distillation_circuit lib dumps (PyFloat PosInf) = Inl ValueError"
    "create_distillation_circuit lib dumps (PyFloat NegInf) = Inl ValueError"
    "create_distillation_circuit lib dumps (PyFloat NaN) = Inl ValueError"
    "construct lib dumps (PyStr s) = (Inl TypeError, [])"
    by (simp_all add: create_distillation_circuit_def construct_def)
  show ?thesis
    using early nd ints [of N] ints [of 1] ints [of 9] ints [of 0] ints [of "- 1"]
      flt inside ok special
    by (intro conjI impI allI) (simp_all (no_asm_simp))
qed

theorem validation_witness:
  "create_distillation_circuit example_registers example_dumps (PyInt 9) = Inl ValueError \<and>
   snd (construct example_registers example_dumps (PyInt 9)) = [] \<and>
   (\<exists>a. construct example_registers example_dumps (PyInt 2) =
      (Inr a, [NewQuantumRegister (IntN 4) ''q'', NewClassicalRegister (IntN 3) ''c'',
               NewQuantumCircuit])) \<and>
   create_distillation_circuit example_registers example_dumps (PyFloat (Finite (17 / 2)))
     = Inl ValueError \<and>
   create_distillation_circuit example_registers example_dumps (PyFloat (Finite (5 / 2)))
     = Inl TypeError \<and>
   create_distillation_circuit example_registers example_dumps (PyFloat (Finite (23 / 10)))
     = Inl (LibraryError CircuitError)"
proof -
  have f: "\<lfloor>23 / 5 :: rat\<rfloor> = 4"
    by (simp add: floor_eq_iff)
  have w: "quantum_register_raises example_registers (2 * (23 / 10)) = Some CircuitError"
    "quantum_register_raises example_registers (2 * (5 / 2)) = None"
    "classical_register_raises example_registers (2 * (5 / 2) - 1) = None"
    by (simp_all add: example_registers_def whole_size_def f)
  have a: "(8::int) < 9" and b: "(2::int) \<le> 2 \<and> (2::int) \<le> 8"
    and c: "(8::rat) < 17 / 2" and d: "(2::rat) \<le> 5 / 2 \<and> (5 / 2 :: rat) \<le> 8"
    and e: "(2::rat) \<le> 23 / 10 \<and> (23 / 10 :: rat) \<le> 8"
    by simp_all
  note v9 = validation [where lib = example_registers and dumps = example_dumps and N = 9
      and r = "17 / 2" and s = "''3''" and v = "PyInt 9" and dumps' = example_dumps]
  note v2 = validation [where lib = example_registers and dumps = example_dumps and N = 2
      and r = "5 / 2" and s = "''3''" and v = "PyInt 2" and dumps' = example_dumps]
  note v3 = validation [where lib = example_registers and dumps = example_dumps and N = 2
      and r = "23 / 10" and s = "''3''" and v = "PyInt 2" and dumps' = example_dumps]
  from v9 a
  have 1: "create_distillation_circuit example_registers example_dumps (PyInt 9) = Inl ValueError"
    by blast
  then have "fst (construct example_registers example_dumps (PyInt 9)) = Inl ValueError"
    by (simp add: create_distillation_circuit_def)
  with v9 have 2: "snd (construct example_registers example_dumps (PyInt 9)) = []"
    by blast
  from v2 b have 3: "\<exists>a. construct example_registers example_dumps (PyInt 2) =
      (Inr a, [NewQuantumRegister (IntN (2 * 2)) ''q'',
               NewClassicalRegister (IntN (2 * 2 - 1)) ''c'', NewQuantumCircuit])"
    by blast
  from v9 c
  have 4: "create_distillation_circuit example_registers example_dumps
      (PyFloat (Finite (17 / 2))) = Inl ValueError"
    by blast
  from v2 d w(2,3)
  have 5: "create_distillation_circuit example_registers example_dumps
      (PyFloat (Finite (5 / 2))) = Inl TypeError"
    by blast
  from v3 e w(1)
  have 6: "create_distillation_circuit example_registers example_dumps
      (PyFloat (Finite (23 / 10))) = Inl (LibraryError CircuitError)"
    by blast
  from 1 2 3 4 5 6 show ?thesis by simp
qed

section \<open>Determinism\<close>

text \<open>
  C9. For N from 2 to 8, two calls with the same N both succeed and build the same circuit;
  if the serializer gives both the same text for it, as it does when it is a function
  of the instruction list, the merged texts are the same, and so is what the accessor returns.
\<close>

theorem construction_deterministic:
  assumes "2 \<le> N" and "N \<le> 8"
  shows "\<exists>a b. create_distillation_circuit lib dumps1 (PyInt N) = Inr a \<and>
               create_distillation_circuit lib dumps2 (PyInt N) = Inr b \<and>
               structured a = structured b \<and>
               (dumps1 (structured a) = dumps2 (structured b) \<longrightarrow>
                  modified_qasm3 a = modified_qasm3 b \<and>
                  get_qasm3_with_flag a () = get_qasm3_with_flag b ())"
  using assms by (simp add: create_valid) (simp add: assemble_def Let_def)

theorem construction_deterministic_witness:
  "\<exists>a b. create_distillation_circuit example_registers example_dumps (PyInt 2) = Inr a \<and>
         create_distillation_circuit example_registers example_dumps (PyInt 2) = Inr b \<and>
         modified_qasm3 a = modified_qasm3 b"
  using construction_deterministic [of 2 example_registers example_dumps example_dumps] by auto

section \<open>The returned object\<close>

lemma length_filter_blocks:
  assumes "\<And>k. length (filter P (f k)) = n"
  shows "length (filter P (concat (map f ks))) = n * length ks"
  using assms by (induction ks) simp_all

lemma length_patch: "length (patch ls frag) = length ls + length frag"
  by (simp add: patch_def Let_def)

lemma length_flag_logic: "length (flag_logic N) = 1 + 7 * length [0..N - 2]"
proof -
  have "length (filter (\<lambda>l. True) (concat (map (\<lambda>k. flag_step (2 * N - 2) [] k) [0..N - 2])))
          = 7 * length [0..N - 2]"
    by (rule length_filter_blocks) (simp add: flag_step_lines)
  then show ?thesis by (simp add: flag_logic_eq)
qed

lemma join_unpatched:
  "join_newline (take p (split_newline s) @ drop p (split_newline s)) = s"
  by (simp add: join_split)

text \<open>
  C10. For N from 2 to 8 the circuit of the returned object is the concatenation of the
  N - 1 step blocks, each of eight instructions: two rotations by +pi/2, two by -pi/2, two
  controlled operations and two measurements; so it has 8(N - 1) instructions, 4(N - 1)
  rotations, 2(N - 1) controlled operations and 2(N - 1) measurements, and nothing else, and
  no instruction writes the flag bit. The accessor returns the attribute. The lines of the
  attached text are the lines of the serialized circuit with the flag logic spliced in; the
  serialization of the returned circuit is that text without the lines of the flag logic,
  1 + 7(N - 1) lines fewer, and differs from the attached text.
\<close>

theorem structured_circuit_without_flag_logic:
  assumes "2 \<le> N" and "N \<le> 8"
  shows "\<exists>a. create_distillation_circuit lib dumps (PyInt N) = Inr a \<and>
           data (structured a) = concat (map (step_block N) [0..N - 2]) \<and>
           (\<forall>k\<in>{0..N - 2}.
              length (step_block N k) = 8 \<and>
              length (filter (is_rotation HalfPi) (step_block N k)) = 2 \<and>
              length (filter (is_rotation NegHalfPi) (step_block N k)) = 2 \<and>
              length (filter is_Cx (step_block N k)) = 2 \<and>
              length (filter is_Measure (step_block N k)) = 2) \<and>
           int (length (data (structured a))) = 8 * (N - 1) \<and>
           int (length (filter is_Rx (data (structured a)))) = 4 * (N - 1) \<and>
           int (length (filter is_Cx (data (structured a)))) = 2 * (N - 1) \<and>
           int (length (filter is_Measure (data (structured a)))) = 2 * (N - 1) \<and>
           flag_bit N \<notin> written_bits (data (structured a)) \<and>
           get_qasm3_with_flag a () = modified_qasm3 a \<and>
           split_newline (modified_qasm3 a) =
             take (find_insert_pos (split_newline (dumps (structured a))))
                  (split_newline (dumps (structured a)))
             @ flag_logic N
             @ drop (find_insert_pos (split_newline (dumps (structured a))))
                  (split_newline (dumps (structured a))) \<and>
           join_newline
             (take (find_insert_pos (split_newline (dumps (structured a))))
                   (split_newline (dumps (structured a)))
              @ drop (find_insert_pos (split_newline (dumps (structured a))))
                   (split_newline (dumps (structured a)))) = dumps (structured a) \<and>
           int (length (split_newline (modified_qasm3 a))) =
             int (length (split_newline (dumps (structured a)))) + 1 + 7 * (N - 1) \<and>
           modified_qasm3 a \<noteq> dumps (structured a)"
proof -
  let ?a = "assemble dumps N"
  let ?qc = "build_circuit N"
  let ?ls = "split_newline (dumps ?qc)"
  have c: "create_distillation_circuit lib dumps (PyInt N) = Inr ?a"
    using assms by (rule create_valid)
  have st: "structured ?a = ?qc" by (rule structured_assemble)
  have steps: "int (length [0..N - 2]) = N - 1" using assms by simp
  have blk: "length (step_block N k) = 8"
    "length (filter (is_rotation HalfPi) (step_block N k)) = 2"
    "length (filter (is_rotation NegHalfPi) (step_block N k)) = 2"
    "length (filter is_Cx (step_block N k)) = 2"
    "length (filter is_Measure (step_block N k)) = 2" for k
    by (simp_all add: step_block_eq)
  have "length (filter (\<lambda>i. True) (data ?qc)) = 8 * length [0..N - 2]"
    unfolding data_build_circuit by (rule length_filter_blocks) (simp add: step_block_eq)
  with steps have n8: "int (length (data ?qc)) = 8 * (N - 1)" by simp
  have "length (filter is_Rx (data ?qc)) = 4 * length [0..N - 2]"
    unfolding data_build_circuit by (rule length_filter_blocks) (simp add: step_block_eq)
  with steps have n4: "int (length (filter is_Rx (data ?qc))) = 4 * (N - 1)" by simp
  have "length (filter is_Cx (data ?qc)) = 2 * length [0..N - 2]"
    unfolding data_build_circuit by (rule length_filter_blocks) (simp add: step_block_eq)
  with steps have n2: "int (length (filter is_Cx (data ?qc))) = 2 * (N - 1)" by simp
  have "length (filter is_Measure (data ?qc)) = 2 * length [0..N - 2]"
    unfolding data_build_circuit by (rule length_filter_blocks) (simp add: step_block_eq)
  with steps have nm: "int (length (filter is_Measure (data ?qc))) = 2 * (N - 1)" by simp
  have "0 \<le> b \<and> b \<le> 2 * N - 3"
    if "(q, b) \<in> set (measurements (data ?qc))" for q b
    using that by (auto simp: measurements_build)
  then have nf: "flag_bit N \<notin> written_bits (data ?qc)"
    by (force simp: written_bits_def flag_bit_def)
  have acc: "get_qasm3_with_flag ?a () = modified_qasm3 ?a"
    by (simp add: assemble_def Let_def)
  have sp: "split_newline (modified_qasm3 ?a) =
      take (find_insert_pos ?ls) ?ls @ flag_logic N @ drop (find_insert_pos ?ls) ?ls"
    by (simp add: split_modified patch_def Let_def)
  have un: "join_newline (take (find_insert_pos ?ls) ?ls @ drop (find_insert_pos ?ls) ?ls)
              = dumps ?qc"
    by (rule join_unpatched)
  from steps have lf: "int (length (flag_logic N)) = 1 + 7 * (N - 1)"
    by (simp add: length_flag_logic)
  have "length (split_newline (modified_qasm3 ?a)) = length ?ls + length (flag_logic N)"
    by (simp add: split_modified length_patch)
  with lf have ln: "int (length (split_newline (modified_qasm3 ?a))) =
      int (length ?ls) + 1 + 7 * (N - 1)" by simp
  have ne: "modified_qasm3 ?a \<noteq> dumps ?qc"
  proof
    assume "modified_qasm3 ?a = dumps ?qc"
    then have "length (split_newline (modified_qasm3 ?a)) = length ?ls" by simp
    with ln assms show False by simp
  qed
  show ?thesis
    apply (rule exI [of _ ?a])
    unfolding st
    apply (intro conjI ballI)
    apply (rule c data_build_circuit blk n8 n4 n2 nm nf acc sp un ln ne)+
    done
qed

theorem structured_circuit_without_flag_logic_witness:
  "\<exists>a. create_distillation_circuit example_registers example_dumps (PyInt 2) = Inr a \<and>
     length (data (structured a)) = 8 \<and>
     get_qasm3_with_flag a () = modified_qasm3 a \<and>
     modified_qasm3 a \<noteq> example_dumps (structured a)"
proof -
  have v: "(2::int) \<le> 2" "(2::int) \<le> 8" by simp_all
  from structured_circuit_without_flag_logic [OF v, of example_registers example_dumps]
  obtain a where "create_distillation_circuit example_registers example_dumps (PyInt 2) = Inr a"
    and "int (length (data (structured a))) = 8 * (2 - 1)"
    and "get_qasm3_with_flag a () = modified_qasm3 a"
    and "modified_qasm3 a \<noteq> example_dumps (structured a)"
    by blast
  then show ?thesis by (intro exI [of _ a]) simp
qed

end
